theory Spec2Isabelle
  imports Main "HOL-Library.AList"
begin

section \<open>JavaScript values\<close>

text \<open>
  Request bodies, database rows and responses are JavaScript values. Objects are
  association lists from property names to values; a property that is missing reads as
  \<open>undefined\<close>. Numbers are carried as payloads: the handlers never compute with them,
  they only test them for truthiness.
\<close>

datatype jsval =
    JUndefined
  | JNull
  | JBool bool
  | JNum int
  | JStr string
  | JArr "jsval list"
  | JObj "(string \<times> jsval) list"

text \<open>ToBoolean: what \<open>!v\<close>, \<open>a || b\<close> and \<open>a && b\<close> test.\<close>

fun truthy :: "jsval \<Rightarrow> bool" where
  "truthy JUndefined = False"
| "truthy JNull = False"
| "truthy (JBool b) = b"
| "truthy (JNum n) = (n \<noteq> 0)"
| "truthy (JStr s) = (s \<noteq> [])"
| "truthy (JArr xs) = True"
| "truthy (JObj kvs) = True"

definition js_or :: "jsval \<Rightarrow> jsval \<Rightarrow> jsval" where
  "js_or a b = (if truthy a then a else b)"

text \<open>Property access \<open>o.k\<close> on a parsed JSON body or a row.\<close>

fun getProp :: "jsval \<Rightarrow> string \<Rightarrow> jsval" where
  "getProp (JObj kvs) k = (case map_of kvs k of None \<Rightarrow> JUndefined | Some v \<Rightarrow> v)"
| "getProp v k = JUndefined"

record response =
  status :: nat
  body :: jsval

definition json_error :: "nat \<Rightarrow> string \<Rightarrow> response" where
  "json_error code msg = \<lparr>status = code, body = JObj [(''error'', JStr msg)]\<rparr>"

definition json_ok :: "jsval \<Rightarrow> response" where
  "json_ok v = \<lparr>status = 200, body = v\<rparr>"

section \<open>Authentication middleware\<close>

text \<open>
  \<open>String.prototype.split(' ')\<close>: cuts at every space and keeps empty pieces, so the
  result is never the empty list.
\<close>

fun js_split :: "char \<Rightarrow> string \<Rightarrow> string list" where
  "js_split d [] = [[]]"
| "js_split d (x # xs) =
     (if x = d then [] # js_split d xs
      else (case js_split d xs of
              [] \<Rightarrow> [[x]]
            | w # ws \<Rightarrow> (x # w) # ws))"

text \<open>Array indexing: out of range reads \<open>undefined\<close>, here \<open>None\<close>.\<close>

definition js_index :: "'a list \<Rightarrow> nat \<Rightarrow> 'a option" where
  "js_index xs i = (if i < length xs then Some (xs ! i) else None)"

text \<open>
  A string that may be \<open>undefined\<close> (a header, an environment variable) is a
  \<open>string option\<close>; it is truthy when it is defined and not empty.
\<close>

definition str_truthy :: "string option \<Rightarrow> bool" where
  "str_truthy s = (case s of None \<Rightarrow> False | Some t \<Rightarrow> t \<noteq> [])"

text \<open>
  \<open>const token = authHeader && authHeader.split(' ')[1]\<close>: a falsy header is the
  token itself, otherwise the token is the second piece of the split.
\<close>

definition authToken :: "string option \<Rightarrow> string option" where
  "authToken authHeader =
     (case authHeader of
        None \<Rightarrow> None
      | Some h \<Rightarrow> if h = [] then Some [] else js_index (js_split CHR '' '' h) 1)"

datatype outcome = Respond response | Next

text \<open>
  \<open>authMiddleware\<close>; \<open>expectedToken\<close> is \<open>process.env.SERVER_SECRET\<close> in the
  first PostgreSQL server and \<open>process.env.SYNC_TOKEN\<close> in the other two servers
  that carry the middleware. The three copies are otherwise the same text.
\<close>

definition authMiddleware :: "string option \<Rightarrow> string option \<Rightarrow> outcome" where
  "authMiddleware expectedToken authHeader =
     (let token = authToken authHeader in
      if \<not> str_truthy token
        then Respond (json_error 401 ''Unauthorized: No token provided'')
      else if str_truthy expectedToken \<and> token \<noteq> expectedToken
        then Respond (json_error 403 ''Forbidden: Invalid token'')
      else Next)"

text \<open>
  A route registered as \<open>app.METHOD(path, authMiddleware, handler)\<close>: the handler
  runs on the store only when the middleware calls \<open>next()\<close>.
\<close>

definition guarded ::
  "string option \<Rightarrow> string option \<Rightarrow> ('s \<Rightarrow> response \<times> 's) \<Rightarrow> 's \<Rightarrow> response \<times> 's" where
  "guarded expectedToken authHeader handler s =
     (case authMiddleware expectedToken authHeader of
        Respond r \<Rightarrow> (r, s)
      | Next \<Rightarrow> handler s)"

text \<open>What C10 takes the token to be: everything after the first space of the header.\<close>

definition afterFirstSpace :: "string \<Rightarrow> string" where
  "afterFirstSpace h = drop 1 (dropWhile (\<lambda>c. c \<noteq> CHR '' '') h)"

section \<open>The PostgreSQL servers\<close>

text \<open>
  Two of the servers keep the records in PostgreSQL. They are the same text except for
  the settings table: \<open>Kiosk\<close> is the server with the kiosk-behaviour columns,
  \<open>Basic\<close> the one with four settings columns.
\<close>

datatype variant = Kiosk | Basic

definition validCollections :: "string list" where
  "validCollections = [''employees'', ''timerecords'', ''locations'', ''departments'', ''settings'']"

subsection \<open>Tables\<close>

text \<open>
  A row maps column names to values; a table is the list of its rows, in the order in
  which \<open>SELECT *\<close> returns them, and the database maps table names to tables. Of
  \<open>CREATE TABLE\<close> the model keeps the column types, the primary key, the
  \<open>NOT NULL\<close> columns and the columns filled by \<open>DEFAULT CURRENT_TIMESTAMP\<close>.
\<close>

type_synonym row = "(string \<times> jsval) list"
type_synonym pgdb = "string \<Rightarrow> row list"

definition emptyDB :: pgdb where
  "emptyDB = (\<lambda>t. [])"

datatype coltype = VARCHAR nat | TEXT | BOOLEAN | INTEGER | TIMESTAMP | JSONB

definition tableColumns :: "variant \<Rightarrow> string \<Rightarrow> (string \<times> coltype) list" where
  "tableColumns v t =
     (if t = ''employees'' then
        [(''id'', VARCHAR 100), (''name'', VARCHAR 255), (''pin'', VARCHAR 50),
         (''image_url'', TEXT), (''archived'', BOOLEAN), (''auto_deduct_lunch'', BOOLEAN),
         (''location_id'', VARCHAR 100), (''department_id'', VARCHAR 100),
         (''is_temp'', BOOLEAN), (''temp_agency'', VARCHAR 255),
         (''created_at'', TIMESTAMP), (''updated_at'', TIMESTAMP)]
      else if t = ''timerecords'' then
        [(''id'', VARCHAR 100), (''employee_id'', VARCHAR 100), (''location_id'', VARCHAR 100),
         (''clock_in'', TIMESTAMP), (''clock_out'', TIMESTAMP), (''breaks'', JSONB),
         (''created_at'', TIMESTAMP), (''updated_at'', TIMESTAMP)]
      else if t = ''locations'' then
        [(''id'', VARCHAR 100), (''name'', VARCHAR 255), (''abbreviation'', VARCHAR 50),
         (''created_at'', TIMESTAMP)]
      else if t = ''departments'' then
        [(''id'', VARCHAR 100), (''name'', VARCHAR 255), (''created_at'', TIMESTAMP)]
      else if t = ''settings'' then
        (case v of
           Kiosk \<Rightarrow>
             [(''id'', VARCHAR 100), (''logo_url'', TEXT), (''week_start_day'', INTEGER),
              (''remote_db_url'', TEXT), (''enable_screen_saver'', BOOLEAN),
              (''kiosk_location_id'', VARCHAR 100), (''clock_format'', VARCHAR 10),
              (''allow_employee_photo_upload'', BOOLEAN), (''timeout_status'', INTEGER),
              (''timeout_timecard'', INTEGER), (''timeout_confirmation'', INTEGER),
              (''timeout_admin_dashboard'', INTEGER), (''timeout_admin_login'', INTEGER),
              (''created_at'', TIMESTAMP), (''updated_at'', TIMESTAMP)]
         | Basic \<Rightarrow>
             [(''id'', VARCHAR 100), (''logo_url'', TEXT), (''week_start_day'', INTEGER),
              (''remote_db_url'', TEXT), (''created_at'', TIMESTAMP), (''updated_at'', TIMESTAMP)])
      else [])"

definition notNullColumns :: "string \<Rightarrow> string list" where
  "notNullColumns t =
     (if t = ''employees'' then [''id'', ''name'', ''pin'']
      else if t = ''timerecords'' then [''id'', ''employee_id'', ''clock_in'']
      else if t = ''locations'' then [''id'', ''name'']
      else if t = ''departments'' then [''id'', ''name'']
      else if t = ''settings'' then [''id'']
      else [])"

definition timestampColumns :: "string \<Rightarrow> string list" where
  "timestampColumns t =
     (if t = ''employees'' then [''created_at'', ''updated_at'']
      else if t = ''timerecords'' then [''created_at'', ''updated_at'']
      else if t = ''locations'' then [''created_at'']
      else if t = ''departments'' then [''created_at'']
      else if t = ''settings'' then [''created_at'', ''updated_at'']
      else [])"

definition rowId :: "row \<Rightarrow> jsval" where
  "rowId r = getProp (JObj r) ''id''"

subsection \<open>Column values\<close>

text \<open>The driver binds \<open>undefined\<close> as \<open>NULL\<close>.\<close>

definition pgParam :: "jsval \<Rightarrow> jsval" where
  "pgParam v = (if v = JUndefined then JNull else v)"

datatype pg_error = InvalidValue string | NotNullViolation string | UniqueViolation string

text \<open>
  What the database engine and the driver do to a value on its way into a column and
  back is partly fixed here and partly a parameter. Fixed: a value that already has the
  column's type. Left to the parameter \<open>engine\<close>, because it is the engine's own
  parsing and printing: the text of a value that is not a string, the reading of a value
  that is not a boolean or not a number as one, every reading of a timestamp (the result
  is the text the server later sends for it), the normal form in which \<open>JSONB\<close>
  returns a document, and the message of an error. \<open>None\<close> means that the engine
  refuses the value.
\<close>

record engine =
  textOf :: "jsval \<Rightarrow> string option"
  booleanOf :: "jsval \<Rightarrow> bool option"
  integerOf :: "jsval \<Rightarrow> int option"
  timestampOf :: "jsval \<Rightarrow> string option"
  jsonbOf :: "jsval \<Rightarrow> jsval"
  errorText :: "pg_error \<Rightarrow> string"

text \<open>
  A text into a text column. A text with a zero byte is refused. For
  \<open>VARCHAR(n)\<close>, a longer text is refused unless everything beyond the first \<open>n\<close>
  characters is spaces; then the first \<open>n\<close> characters are stored.
\<close>

definition storeText :: "nat option \<Rightarrow> string \<Rightarrow> string option" where
  "storeText limit s =
     (if CHR 0x00 \<in> set s then None
      else (case limit of
              None \<Rightarrow> Some s
            | Some n \<Rightarrow>
                if length s \<le> n then Some s
                else if set (drop n s) \<subseteq> {CHR '' ''} then Some (take n s)
                else None))"

definition textValue :: "engine \<Rightarrow> jsval \<Rightarrow> string option" where
  "textValue eng x = (case x of JStr s \<Rightarrow> Some s | _ \<Rightarrow> textOf eng x)"

text \<open>The value a column of type \<open>ty\<close> returns after \<open>x\<close> was bound to it.\<close>

definition storeValue :: "engine \<Rightarrow> coltype \<Rightarrow> jsval \<Rightarrow> jsval option" where
  "storeValue eng ty x =
     (if x = JNull then Some JNull
      else (case ty of
              VARCHAR n \<Rightarrow> map_option JStr (Option.bind (textValue eng x) (storeText (Some n)))
            | TEXT \<Rightarrow> map_option JStr (Option.bind (textValue eng x) (storeText None))
            | BOOLEAN \<Rightarrow>
                (case x of JBool b \<Rightarrow> Some (JBool b) | _ \<Rightarrow> map_option JBool (booleanOf eng x))
            | INTEGER \<Rightarrow>
                (case x of
                   JNum n \<Rightarrow> if - 2147483648 \<le> n \<and> n \<le> 2147483647 then Some (JNum n) else None
                 | _ \<Rightarrow> map_option JNum (integerOf eng x))
            | TIMESTAMP \<Rightarrow> map_option JStr (timestampOf eng x)
            | JSONB \<Rightarrow> Some (jsonbOf eng x)))"

text \<open>
  The values of an \<open>INSERT\<close>, each bound and stored in its column; the first value
  that its column refuses, or a column that the table does not have, is an error.
\<close>

fun storeColumns ::
  "engine \<Rightarrow> (string \<rightharpoonup> coltype) \<Rightarrow> string list \<Rightarrow> jsval list \<Rightarrow> pg_error + jsval list" where
  "storeColumns eng ty (k # ks) (x # xs) =
     (case Option.bind (ty k) (\<lambda>t. storeValue eng t (pgParam x)) of
        None \<Rightarrow> Inl (InvalidValue k)
      | Some w \<Rightarrow>
          (case storeColumns eng ty ks xs of
             Inl e \<Rightarrow> Inl e
           | Inr ws \<Rightarrow> Inr (w # ws)))"
| "storeColumns eng ty ks xs = Inr []"

text \<open>An engine for examples: it refuses every value that is not of the column's type.\<close>

definition strictEngine :: engine where
  "strictEngine =
     \<lparr>textOf = (\<lambda>x. None), booleanOf = (\<lambda>x. None), integerOf = (\<lambda>x. None),
      timestampOf = (\<lambda>x. None), jsonbOf = (\<lambda>x. x), errorText = (\<lambda>e. ''error'')\<rparr>"

subsection \<open>Statements\<close>

text \<open>
  The row an \<open>INSERT\<close> proposes: the listed columns with their stored values, then the
  timestamp columns with the current time.
\<close>

definition newRow :: "string \<Rightarrow> string list \<Rightarrow> jsval list \<Rightarrow> jsval \<Rightarrow> row" where
  "newRow t cols ws now = zip cols ws @ map (\<lambda>k. (k, now)) (timestampColumns t)"

definition nullViolation :: "string \<Rightarrow> row \<Rightarrow> string option" where
  "nullViolation t r = find (\<lambda>k. getProp (JObj r) k = JNull) (notNullColumns t)"

text \<open>\<open>SELECT * FROM t\<close> and \<open>SELECT * FROM t WHERE id = $1\<close>.\<close>

definition sqlSelectAll :: "string \<Rightarrow> pgdb \<Rightarrow> row list" where
  "sqlSelectAll t db = db t"

definition sqlSelectById :: "string \<Rightarrow> string \<Rightarrow> pgdb \<Rightarrow> row list" where
  "sqlSelectById t i db = filter (\<lambda>r. rowId r = JStr i) (db t)"

text \<open>The constraints and the effect of an \<open>INSERT\<close> of the proposed row \<open>r\<close>.\<close>

definition insertRow :: "string \<Rightarrow> row \<Rightarrow> pgdb \<Rightarrow> pg_error + (row list \<times> pgdb)" where
  "insertRow t r db =
     (case nullViolation t r of
        Some k \<Rightarrow> Inl (NotNullViolation k)
      | None \<Rightarrow>
          if rowId r \<in> set (map rowId (db t)) then Inl (UniqueViolation t)
          else Inr ([r], db(t := db t @ [r])))"

text \<open>\<open>INSERT INTO t (cols) VALUES (vals) RETURNING *\<close>.\<close>

definition sqlInsert ::
  "engine \<Rightarrow> variant \<Rightarrow> string \<Rightarrow> string list \<Rightarrow> jsval list \<Rightarrow> jsval \<Rightarrow> pgdb
     \<Rightarrow> pg_error + (row list \<times> pgdb)" where
  "sqlInsert eng v t cols vals now db =
     (case storeColumns eng (map_of (tableColumns v t)) cols vals of
        Inl e \<Rightarrow> Inl e
      | Inr ws \<Rightarrow> insertRow t (newRow t cols ws now) db)"

text \<open>
  \<open>ON CONFLICT (id) DO UPDATE SET k = EXCLUDED.k, ...\<close> on one existing row;
  \<open>touch\<close> says whether the statement also sets \<open>updated_at = CURRENT_TIMESTAMP\<close>.
\<close>

definition applyConflict :: "string list \<Rightarrow> bool \<Rightarrow> row \<Rightarrow> jsval \<Rightarrow> row \<Rightarrow> row" where
  "applyConflict setCols touch excluded now old =
     (let r = fold (\<lambda>k. AList.update k (getProp (JObj excluded) k)) setCols old
      in if touch then AList.update ''updated_at'' now r else r)"

text \<open>
  The constraints and the effect of an \<open>INSERT ... ON CONFLICT (id) DO UPDATE\<close> of the
  proposed row \<open>r\<close>. An updated row is written as a new version of the row, so it
  follows the rows that were not touched.
\<close>

definition upsertRow ::
  "string \<Rightarrow> row \<Rightarrow> string list \<Rightarrow> bool \<Rightarrow> jsval \<Rightarrow> pgdb \<Rightarrow> pg_error + (row list \<times> pgdb)" where
  "upsertRow t r setCols touch now db =
     (case nullViolation t r of
        Some k \<Rightarrow> Inl (NotNullViolation k)
      | None \<Rightarrow>
          if rowId r \<in> set (map rowId (db t)) then
            (let updated = map (applyConflict setCols touch r now)
                             (filter (\<lambda>old. rowId old = rowId r) (db t))
             in Inr (updated,
                     db(t := filter (\<lambda>old. rowId old \<noteq> rowId r) (db t) @ updated)))
          else Inr ([r], db(t := db t @ [r])))"

text \<open>\<open>INSERT ... ON CONFLICT (id) DO UPDATE SET ... RETURNING *\<close>.\<close>

definition sqlUpsert ::
  "engine \<Rightarrow> variant \<Rightarrow> string \<Rightarrow> string list \<Rightarrow> jsval list \<Rightarrow> string list \<Rightarrow> bool \<Rightarrow> jsval
     \<Rightarrow> pgdb \<Rightarrow> pg_error + (row list \<times> pgdb)" where
  "sqlUpsert eng v t cols vals setCols touch now db =
     (case storeColumns eng (map_of (tableColumns v t)) cols vals of
        Inl e \<Rightarrow> Inl e
      | Inr ws \<Rightarrow> upsertRow t (newRow t cols ws now) setCols touch now db)"

text \<open>\<open>DELETE FROM t WHERE id = $1 RETURNING *\<close>.\<close>

definition sqlDelete :: "string \<Rightarrow> string \<Rightarrow> pgdb \<Rightarrow> row list \<times> pgdb" where
  "sqlDelete t i db =
     (filter (\<lambda>r. rowId r = JStr i) (db t), db(t := filter (\<lambda>r. rowId r \<noteq> JStr i) (db t)))"

subsection \<open>Field mapper\<close>

text \<open>\<open>dbToApi\<close>: snake case columns to camel case properties.\<close>

definition dbToApi :: "variant \<Rightarrow> jsval \<Rightarrow> string \<Rightarrow> jsval" where
  "dbToApi v row collection =
     (if \<not> truthy row then JNull
      else if collection = ''employees'' then
        JObj [(''id'', getProp row ''id''),
              (''name'', getProp row ''name''),
              (''pin'', getProp row ''pin''),
              (''imageUrl'', getProp row ''image_url''),
              (''archived'', getProp row ''archived''),
              (''autoDeductLunch'', getProp row ''auto_deduct_lunch''),
              (''locationId'', getProp row ''location_id''),
              (''departmentId'', getProp row ''department_id''),
              (''isTemp'', getProp row ''is_temp''),
              (''tempAgency'', getProp row ''temp_agency'')]
      else if collection = ''timerecords'' then
        JObj [(''id'', getProp row ''id''),
              (''employeeId'', getProp row ''employee_id''),
              (''locationId'', getProp row ''location_id''),
              (''clockIn'', getProp row ''clock_in''),
              (''clockOut'', getProp row ''clock_out''),
              (''breaks'', js_or (getProp row ''breaks'') (JArr []))]
      else if collection = ''locations'' then
        JObj [(''id'', getProp row ''id''),
              (''name'', getProp row ''name''),
              (''abbreviation'', getProp row ''abbreviation'')]
      else if collection = ''departments'' then
        JObj [(''id'', getProp row ''id''),
              (''name'', getProp row ''name'')]
      else if collection = ''settings'' then
        (case v of
           Kiosk \<Rightarrow>
             JObj [(''id'', getProp row ''id''),
                   (''logoUrl'', getProp row ''logo_url''),
                   (''weekStartDay'', getProp row ''week_start_day''),
                   (''remoteDbUrl'', getProp row ''remote_db_url''),
                   (''enableScreenSaver'', getProp row ''enable_screen_saver''),
                   (''kioskLocationId'', getProp row ''kiosk_location_id''),
                   (''clockFormat'', getProp row ''clock_format''),
                   (''allowEmployeePhotoUpload'', getProp row ''allow_employee_photo_upload''),
                   (''timeoutStatus'', getProp row ''timeout_status''),
                   (''timeoutTimecard'', getProp row ''timeout_timecard''),
                   (''timeoutConfirmation'', getProp row ''timeout_confirmation''),
                   (''timeoutAdminDashboard'', getProp row ''timeout_admin_dashboard''),
                   (''timeoutAdminLogin'', getProp row ''timeout_admin_login'')]
         | Basic \<Rightarrow>
             JObj [(''id'', getProp row ''id''),
                   (''logoUrl'', getProp row ''logo_url''),
                   (''weekStartDay'', getProp row ''week_start_day''),
                   (''remoteDbUrl'', getProp row ''remote_db_url'')])
      else row)"

text \<open>The column list of the \<open>INSERT\<close> that the create and upsert handlers build.\<close>

definition insertColumns :: "variant \<Rightarrow> string \<Rightarrow> string list" where
  "insertColumns v collection =
     (if collection = ''employees'' then
        [''id'', ''name'', ''pin'', ''image_url'', ''archived'', ''auto_deduct_lunch'',
         ''location_id'', ''department_id'', ''is_temp'', ''temp_agency'']
      else if collection = ''timerecords'' then
        [''id'', ''employee_id'', ''location_id'', ''clock_in'', ''clock_out'', ''breaks'']
      else if collection = ''locations'' then [''id'', ''name'', ''abbreviation'']
      else if collection = ''departments'' then [''id'', ''name'']
      else if collection = ''settings'' then
        (case v of
           Kiosk \<Rightarrow>
             [''id'', ''logo_url'', ''week_start_day'', ''remote_db_url'', ''enable_screen_saver'',
              ''kiosk_location_id'', ''clock_format'', ''allow_employee_photo_upload'',
              ''timeout_status'', ''timeout_timecard'', ''timeout_confirmation'',
              ''timeout_admin_dashboard'', ''timeout_admin_login'']
         | Basic \<Rightarrow> [''id'', ''logo_url'', ''week_start_day'', ''remote_db_url''])
      else [])"

text \<open>
  The \<open>values\<close> array. The create and the upsert handler build the same array except
  for its first element, \<open>data.id\<close> in one and \<open>data.id || id\<close> in the other, so the
  first element is the argument \<open>idValue\<close>. The breaks are bound as
  \<open>JSON.stringify\<close> of the value given here; what the \<open>JSONB\<close> column returns for
  that text is \<open>jsonbOf\<close> of the value.
\<close>

definition rowValues :: "variant \<Rightarrow> string \<Rightarrow> jsval \<Rightarrow> jsval \<Rightarrow> jsval list" where
  "rowValues v collection idValue data =
     (if collection = ''employees'' then
        [idValue, getProp data ''name'', getProp data ''pin'', getProp data ''imageUrl'',
         js_or (getProp data ''archived'') (JBool False),
         js_or (getProp data ''autoDeductLunch'') (JBool False),
         getProp data ''locationId'', getProp data ''departmentId'',
         js_or (getProp data ''isTemp'') (JBool False), getProp data ''tempAgency'']
      else if collection = ''timerecords'' then
        [idValue, getProp data ''employeeId'', getProp data ''locationId'',
         getProp data ''clockIn'', getProp data ''clockOut'',
         js_or (getProp data ''breaks'') (JArr [])]
      else if collection = ''locations'' then
        [idValue, getProp data ''name'', getProp data ''abbreviation'']
      else if collection = ''departments'' then [idValue, getProp data ''name'']
      else if collection = ''settings'' then
        (case v of
           Kiosk \<Rightarrow>
             [idValue, getProp data ''logoUrl'', getProp data ''weekStartDay'',
              getProp data ''remoteDbUrl'', getProp data ''enableScreenSaver'',
              getProp data ''kioskLocationId'', getProp data ''clockFormat'',
              getProp data ''allowEmployeePhotoUpload'', getProp data ''timeoutStatus'',
              getProp data ''timeoutTimecard'', getProp data ''timeoutConfirmation'',
              getProp data ''timeoutAdminDashboard'', getProp data ''timeoutAdminLogin'']
         | Basic \<Rightarrow>
             [idValue, getProp data ''logoUrl'', getProp data ''weekStartDay'',
              getProp data ''remoteDbUrl''])
      else [])"

text \<open>The columns assigned from \<open>EXCLUDED\<close> in the upsert's \<open>DO UPDATE SET\<close>.\<close>

definition conflictColumns :: "variant \<Rightarrow> string \<Rightarrow> string list" where
  "conflictColumns v collection =
     (if collection = ''employees'' then
        [''name'', ''pin'', ''image_url'', ''archived'', ''auto_deduct_lunch'',
         ''location_id'', ''department_id'', ''is_temp'', ''temp_agency'']
      else if collection = ''timerecords'' then
        [''employee_id'', ''location_id'', ''clock_in'', ''clock_out'', ''breaks'']
      else if collection = ''locations'' then [''name'', ''abbreviation'']
      else if collection = ''departments'' then [''name'']
      else if collection = ''settings'' then
        (case v of
           Kiosk \<Rightarrow>
             [''logo_url'', ''week_start_day'', ''remote_db_url'', ''enable_screen_saver'',
              ''kiosk_location_id'', ''clock_format'', ''allow_employee_photo_upload'',
              ''timeout_status'', ''timeout_timecard'', ''timeout_confirmation'',
              ''timeout_admin_dashboard'', ''timeout_admin_login'']
         | Basic \<Rightarrow> [''logo_url'', ''week_start_day'', ''remote_db_url''])
      else [])"

text \<open>Whether the upsert also sets \<open>updated_at = CURRENT_TIMESTAMP\<close>.\<close>

definition conflictTouches :: "string \<Rightarrow> bool" where
  "conflictTouches collection =
     (collection = ''employees'' \<or> collection = ''timerecords'' \<or> collection = ''settings'')"

text \<open>
  The storage row of a wire record, as the create handler's \<open>INSERT\<close> returns it, and
  as the upsert handler's statement proposes it for a request sent to the path id \<open>i\<close>.
\<close>

definition apiToDb :: "engine \<Rightarrow> variant \<Rightarrow> string \<Rightarrow> jsval \<Rightarrow> jsval \<Rightarrow> pg_error + row" where
  "apiToDb eng v collection data now =
     (case storeColumns eng (map_of (tableColumns v collection)) (insertColumns v collection)
             (rowValues v collection (getProp data ''id'') data) of
        Inl e \<Rightarrow> Inl e
      | Inr ws \<Rightarrow> Inr (newRow collection (insertColumns v collection) ws now))"

definition upsertToDb ::
  "engine \<Rightarrow> variant \<Rightarrow> string \<Rightarrow> string \<Rightarrow> jsval \<Rightarrow> jsval \<Rightarrow> pg_error + row" where
  "upsertToDb eng v collection i data now =
     (case storeColumns eng (map_of (tableColumns v collection)) (insertColumns v collection)
             (rowValues v collection (js_or (getProp data ''id'') (JStr i)) data) of
        Inl e \<Rightarrow> Inl e
      | Inr ws \<Rightarrow> Inr (newRow collection (insertColumns v collection) ws now))"

subsection \<open>Handlers\<close>

text \<open>\<open>result.rows[0]\<close>.\<close>

definition firstRow :: "row list \<Rightarrow> jsval" where
  "firstRow rows = (case rows of [] \<Rightarrow> JUndefined | r # _ \<Rightarrow> JObj r)"

text \<open>\<open>GET /:collection\<close>\<close>

definition get_collection :: "variant \<Rightarrow> string \<Rightarrow> pgdb \<Rightarrow> response \<times> pgdb" where
  "get_collection v collection db =
     (if collection \<notin> set validCollections then (json_error 404 ''Collection not found'', db)
      else (json_ok (JArr (map (\<lambda>r. dbToApi v (JObj r) collection) (sqlSelectAll collection db))),
            db))"

text \<open>\<open>GET /:collection/:id\<close>\<close>

definition get_collection_id :: "variant \<Rightarrow> string \<Rightarrow> string \<Rightarrow> pgdb \<Rightarrow> response \<times> pgdb" where
  "get_collection_id v collection i db =
     (if collection \<notin> set validCollections then (json_error 404 ''Collection not found'', db)
      else (let rows = sqlSelectById collection i db in
            if length rows = 0 then (json_error 404 ''Document not found'', db)
            else (json_ok (dbToApi v (firstRow rows) collection), db)))"

text \<open>\<open>POST /:collection\<close>\<close>

definition post_collection ::
  "engine \<Rightarrow> variant \<Rightarrow> string \<Rightarrow> jsval \<Rightarrow> jsval \<Rightarrow> pgdb \<Rightarrow> response \<times> pgdb" where
  "post_collection eng v collection data now db =
     (if collection \<notin> set validCollections then (json_error 404 ''Collection not found'', db)
      else (case sqlInsert eng v collection (insertColumns v collection)
                   (rowValues v collection (getProp data ''id'') data) now db of
              Inl err \<Rightarrow> (json_error 500 (errorText eng err), db)
            | Inr (rows, db') \<Rightarrow>
                (\<lparr>status = 201, body = dbToApi v (firstRow rows) collection\<rparr>, db')))"

text \<open>\<open>PUT /:collection/:id\<close>\<close>

definition put_collection_id ::
  "engine \<Rightarrow> variant \<Rightarrow> string \<Rightarrow> string \<Rightarrow> jsval \<Rightarrow> jsval \<Rightarrow> pgdb \<Rightarrow> response \<times> pgdb" where
  "put_collection_id eng v collection i data now db =
     (if collection \<notin> set validCollections then (json_error 404 ''Collection not found'', db)
      else (case sqlUpsert eng v collection (insertColumns v collection)
                   (rowValues v collection (js_or (getProp data ''id'') (JStr i)) data)
                   (conflictColumns v collection) (conflictTouches collection) now db of
              Inl err \<Rightarrow> (json_error 500 (errorText eng err), db)
            | Inr (rows, db') \<Rightarrow> (json_ok (dbToApi v (firstRow rows) collection), db')))"

text \<open>\<open>DELETE /:collection/:id\<close>\<close>

definition delete_collection_id :: "variant \<Rightarrow> string \<Rightarrow> string \<Rightarrow> pgdb \<Rightarrow> response \<times> pgdb" where
  "delete_collection_id v collection i db =
     (if collection \<notin> set validCollections then (json_error 404 ''Collection not found'', db)
      else (case sqlDelete collection i db of
              (rows, db') \<Rightarrow>
                if length rows = 0 then (json_error 404 ''Document not found'', db')
                else (json_ok (JObj [(''ok'', JBool True)]), db')))"

text \<open>The store after \<open>PUT /:collection/:id\<close>.\<close>

definition putOnce ::
  "engine \<Rightarrow> variant \<Rightarrow> string \<Rightarrow> string \<Rightarrow> jsval \<Rightarrow> jsval \<Rightarrow> pgdb \<Rightarrow> pgdb" where
  "putOnce eng v c i data now db = snd (put_collection_id eng v c i data now db)"

text \<open>A path id that fills the id column: one hundred characters.\<close>

definition longId :: string where
  "longId = replicate 100 (CHR ''a'')"

subsection \<open>Sequences of writes\<close>

datatype request =
    Create string jsval jsval
  | Upsert string string jsval jsval
  | Delete string string

fun serve :: "engine \<Rightarrow> variant \<Rightarrow> request \<Rightarrow> pgdb \<Rightarrow> response \<times> pgdb" where
  "serve eng v (Create c data now) db = post_collection eng v c data now db"
| "serve eng v (Upsert c i data now) db = put_collection_id eng v c i data now db"
| "serve eng v (Delete c i) db = delete_collection_id v c i db"

fun serveAll :: "engine \<Rightarrow> variant \<Rightarrow> request list \<Rightarrow> pgdb \<Rightarrow> pgdb" where
  "serveAll eng v [] db = db"
| "serveAll eng v (r # rs) db = serveAll eng v rs (snd (serve eng v r db))"

text \<open>The primary key: no two rows of a table have the same id.\<close>

definition pk_unique :: "pgdb \<Rightarrow> bool" where
  "pk_unique db = list_all (\<lambda>t. distinct (map rowId (db t))) validCollections"

subsection \<open>Wire records\<close>











section \<open>The sync server\<close>

text \<open>
  The sync server keeps its documents in an in-memory document database. The handlers
  read \<open>db[name]\<close>: the collection registered under \<open>name\<close>, or another property of
  the database object, or \<open>undefined\<close>. A collection is the list of its documents;
  \<open>otherProps\<close> are the names of the object's other properties whose value is truthy,
  which the library defines. \<open>initDB\<close> registers five collections, all empty.
\<close>

record rxdb =
  collections :: "string \<rightharpoonup> jsval list"
  otherProps :: "string list"

definition initDB :: "string list \<Rightarrow> rxdb" where
  "initDB props =
     \<lparr>collections = map_of (map (\<lambda>name. (name, []))
        [''employees'', ''time_records'', ''locations'', ''departments'', ''settings'']),
      otherProps = props\<rparr>"

text \<open>\<open>docs[docs.length - 1]\<close>\<close>

definition lastDoc :: "jsval list \<Rightarrow> jsval" where
  "lastDoc docs = (if docs = [] then JUndefined else last docs)"

text \<open>
  \<open>POST /sync/:collection/pull\<close>. When \<open>db[collection]\<close> is falsy the answer is 404.
  When it is a property that is not a collection, calling its \<open>find\<close> throws inside the
  \<open>try\<close> and the answer is 500. For a collection the query has an empty selector, so
  it returns every document; \<open>minUpdatedAt\<close> and \<open>lastId\<close> are computed and not used.
  \<open>now\<close> is \<open>new Date().getTime()\<close>.
\<close>

definition sync_pull :: "string \<Rightarrow> jsval \<Rightarrow> jsval \<Rightarrow> rxdb \<Rightarrow> response \<times> rxdb" where
  "sync_pull collection reqBody now db =
     (let checkpoint = getProp reqBody ''checkpoint'';
          limit = getProp reqBody ''limit''
      in case collections db collection of
           None \<Rightarrow>
             if collection \<in> set (otherProps db)
             then (json_error 500 ''db[collection].find is not a function'', db)
             else (json_error 404 ''Collection not found'', db)
         | Some stored \<Rightarrow>
             (let minUpdatedAt = (if truthy checkpoint then getProp checkpoint ''updatedAt'' else JNum 0);
                  lastId = (if truthy checkpoint then getProp checkpoint ''id'' else JStr []);
                  docs = stored;
                  newCheckpoint =
                    (if truthy (lastDoc docs)
                     then JObj [(''id'', getProp (lastDoc docs) ''id''), (''updatedAt'', now)]
                     else checkpoint)
              in (json_ok (JObj [(''documents'', JArr docs), (''checkpoint'', newCheckpoint)]), db)))"

section \<open>Facts about splitting\<close>

lemma js_split_no_delim: "d \<notin> set xs \<Longrightarrow> js_split d xs = [xs]"
  by (induction xs) auto

lemma js_split_first: "d \<notin> set a \<Longrightarrow> js_split d (a @ d # b) = a # js_split d b"
  by (induction a) auto

lemma js_split_second:
  assumes "d \<notin> set a" and "d \<notin> set t"
  shows "js_index (js_split d (a @ d # t)) (Suc 0) = Some t"
    and "js_index (js_split d (a @ d # t @ d # r)) (Suc 0) = Some t"
  using assms by (simp_all add: js_split_first js_split_no_delim js_index_def)

section \<open>The auth gate\<close>

text \<open>
  C1. On a guarded route: when the header yields no token (the token is undefined or
  empty) the middleware answers 401 with an error body and the handler does not run,
  whatever the handler is, so the store is as before; when a secret is configured and
  a token is present that differs from it, the middleware answers 403 and the handler
  does not run; when the token equals the configured secret the request reaches the
  handler.
\<close>

theorem auth_gate_outcomes:
  "(\<not> str_truthy (authToken h) \<longrightarrow>
      authMiddleware e h = Respond (json_error 401 ''Unauthorized: No token provided'') \<and>
      guarded e h handler s = (json_error 401 ''Unauthorized: No token provided'', s)) \<and>
   (str_truthy e \<and> str_truthy (authToken h) \<and> authToken h \<noteq> e \<longrightarrow>
      authMiddleware e h = Respond (json_error 403 ''Forbidden: Invalid token'') \<and>
      guarded e h handler s = (json_error 403 ''Forbidden: Invalid token'', s)) \<and>
   (str_truthy e \<and> authToken h = e \<longrightarrow>
      authMiddleware e h = Next \<and> guarded e h handler s = handler s)"
  by (simp add: authMiddleware_def guarded_def Let_def)

theorem auth_gate_outcomes_witness:
  "\<not> str_truthy (authToken None) \<and>
   guarded (Some ''s3cret'') None (\<lambda>n. (json_ok JNull, Suc n)) (0::nat)
     = (json_error 401 ''Unauthorized: No token provided'', 0) \<and>
   str_truthy (Some ''s3cret'') \<and> str_truthy (authToken (Some ''Bearer wrong'')) \<and>
   authToken (Some ''Bearer wrong'') \<noteq> Some ''s3cret'' \<and>
   guarded (Some ''s3cret'') (Some ''Bearer wrong'') (\<lambda>n. (json_ok JNull, Suc n)) (0::nat)
     = (json_error 403 ''Forbidden: Invalid token'', 0) \<and>
   authToken (Some ''Bearer s3cret'') = Some ''s3cret'' \<and>
   guarded (Some ''s3cret'') (Some ''Bearer s3cret'') (\<lambda>n. (json_ok JNull, Suc n)) (0::nat)
     = (json_ok JNull, 1)"
  using auth_gate_outcomes [of None "Some ''s3cret''" "\<lambda>n. (json_ok JNull, Suc n)" "0::nat"]
        auth_gate_outcomes [of "Some ''Bearer wrong''" "Some ''s3cret''"
                               "\<lambda>n. (json_ok JNull, Suc n)" "0::nat"]
        auth_gate_outcomes [of "Some ''Bearer s3cret''" "Some ''s3cret''"
                               "\<lambda>n. (json_ok JNull, Suc n)" "0::nat"]
  by (simp add: authToken_def str_truthy_def js_index_def)

text \<open>
  C3. With no secret configured (the environment variable is unset or empty), every
  request whose header yields a non-empty token is passed to the handler; the
  middleware's answer is never the 403.
\<close>

theorem open_mode_accepts_any_token:
  assumes "\<not> str_truthy e" and "authToken h = Some t" and "t \<noteq> []"
  shows "authMiddleware e h = Next \<and>
         guarded e h handler s = handler s \<and>
         authMiddleware e h \<noteq> Respond (json_error 403 ''Forbidden: Invalid token'')"
  using assms by (simp add: authMiddleware_def guarded_def Let_def str_truthy_def)

theorem open_mode_accepts_any_token_witness:
  "\<not> str_truthy None \<and> authToken (Some ''Bearer anything'') = Some ''anything'' \<and>
   ''anything'' \<noteq> [] \<and>
   authMiddleware None (Some ''Bearer anything'') = Next \<and>
   guarded None (Some ''Bearer anything'') (\<lambda>n. (json_ok JNull, Suc n)) (0::nat)
     = (json_ok JNull, 1)"
proof -
  have e: "\<not> str_truthy None" by (simp add: str_truthy_def)
  have t: "authToken (Some ''Bearer anything'') = Some ''anything''"
    by (simp add: authToken_def js_index_def)
  have n: "''anything'' \<noteq> []" by simp
  from open_mode_accepts_any_token [OF e t n, of "\<lambda>n. (json_ok JNull, Suc n)" "0::nat"] e t
  show ?thesis by simp
qed

text \<open>
  C10, as stated, fails: the token is not everything after the first space. For the
  header \<open>Bearer a b\<close> and the secret \<open>a b\<close>, what follows the first space equals the
  secret, yet the token read is \<open>a\<close> and the request is answered 403.
\<close>

theorem token_is_not_rest_of_header:
  "afterFirstSpace ''Bearer a b'' = ''a b'' \<and>
   authToken (Some ''Bearer a b'') = Some ''a'' \<and>
   authMiddleware (Some ''a b'') (Some ''Bearer a b'')
     = Respond (json_error 403 ''Forbidden: Invalid token'')"
  by (simp add: afterFirstSpace_def authToken_def js_index_def authMiddleware_def
      str_truthy_def)

text \<open>
  C10, amended. The token is the text between the first and the second space of the
  header, or up to the end when there is no second space. The scheme word is never
  inspected: for every scheme word and every non-empty token, both without a space,
  the header made of the scheme, a space and the token (with or without more text after
  a second space) yields that token, and it is accepted when it equals the secret.
  A header that contains no space yields no token and is answered 401, whatever the
  secret is.
\<close>

theorem scheme_is_never_checked:
  "(CHR '' '' \<notin> set scheme \<and> CHR '' '' \<notin> set t \<and> t \<noteq> [] \<longrightarrow>
      authToken (Some (scheme @ CHR '' '' # t)) = Some t \<and>
      authToken (Some (scheme @ CHR '' '' # t @ CHR '' '' # rest)) = Some t \<and>
      authMiddleware (Some t) (Some (scheme @ CHR '' '' # t)) = Next \<and>
      authMiddleware (Some t) (Some (scheme @ CHR '' '' # t @ CHR '' '' # rest)) = Next) \<and>
   (CHR '' '' \<notin> set h \<longrightarrow>
      authMiddleware e (Some h) = Respond (json_error 401 ''Unauthorized: No token provided''))"
proof -
  have spaced: "authToken (Some (a @ CHR '' '' # t)) = Some t"
               "authToken (Some (a @ CHR '' '' # t @ CHR '' '' # r)) = Some t"
    if "CHR '' '' \<notin> set a" and "CHR '' '' \<notin> set t" for a t r
    using that by (simp_all add: authToken_def js_split_second)
  have bare: "authToken (Some x) = (if x = [] then Some [] else None)"
    if "CHR '' '' \<notin> set x" for x
    using that by (simp add: authToken_def js_split_no_delim js_index_def)
  show ?thesis
    by (auto simp: spaced bare authMiddleware_def str_truthy_def)
qed

theorem scheme_is_never_checked_witness:
  "CHR '' '' \<notin> set ''Basic'' \<and> CHR '' '' \<notin> set ''s3cret'' \<and> ''s3cret'' \<noteq> [] \<and>
   authToken (Some ''Basic s3cret'') = Some ''s3cret'' \<and>
   authMiddleware (Some ''s3cret'') (Some ''Basic s3cret'') = Next \<and>
   CHR '' '' \<notin> set ''s3cret'' \<and>
   authMiddleware (Some ''s3cret'') (Some ''s3cret'')
     = Respond (json_error 401 ''Unauthorized: No token provided'')"
  using scheme_is_never_checked [of "''Basic''" "''s3cret''" "[]" "''s3cret''" "Some ''s3cret''"]
  by simp

section \<open>Columns and rows\<close>

lemma valid_cases:
  "c \<in> set validCollections \<longleftrightarrow>
     c = ''employees'' \<or> c = ''timerecords'' \<or> c = ''locations'' \<or> c = ''departments'' \<or> c = ''settings''"
  by (auto simp: validCollections_def)

lemma valid_collection_cases:
  assumes "c \<in> set validCollections"
    and "c = ''employees'' \<Longrightarrow> P" and "c = ''timerecords'' \<Longrightarrow> P"
    and "c = ''locations'' \<Longrightarrow> P" and "c = ''departments'' \<Longrightarrow> P"
    and "c = ''settings'' \<Longrightarrow> P"
  shows P
proof -
  from assms(1) have "c = ''employees'' \<or> c = ''timerecords'' \<or> c = ''locations''
      \<or> c = ''departments'' \<or> c = ''settings''"
    by (simp add: valid_cases)
  then show P
    by (elim disjE) (erule assms(2-6))+
qed

lemma insertColumns_id:
  "c \<in> set validCollections \<Longrightarrow> insertColumns v c = ''id'' # conflictColumns v c"
  by (auto simp: valid_cases insertColumns_def conflictColumns_def split: variant.splits)


lemma rowValues_hd:
  "c \<in> set validCollections \<Longrightarrow> \<exists>vs. rowValues v c idv data = idv # vs"
  by (auto simp: valid_cases rowValues_def split: variant.splits)

lemma insertColumns_distinct: "distinct (insertColumns v c)"
  by (simp add: insertColumns_def split: variant.splits)

lemma updated_at_not_inserted: "''updated_at'' \<notin> set (insertColumns v c)"
  by (simp add: insertColumns_def split: variant.splits)


lemma id_not_conflict: "''id'' \<notin> set (conflictColumns v c)"
  by (auto simp: conflictColumns_def split: variant.splits if_splits)

lemma id_column_type:
  "c \<in> set validCollections \<Longrightarrow> map_of (tableColumns v c) ''id'' = Some (VARCHAR 100)"
  by (auto simp: valid_cases tableColumns_def split: variant.splits)


lemma storeColumns_hd:
  "storeColumns eng ty (k # ks) (x # xs) = Inr ws \<Longrightarrow>
     \<exists>w ws'. ws = w # ws' \<and> Option.bind (ty k) (\<lambda>t. storeValue eng t (pgParam x)) = Some w"
  by (auto split: option.splits sum.splits)




lemma rowId_newRow: "rowId (newRow t (''id'' # ks) (w # ws) now) = w"
  by (simp add: newRow_def rowId_def)


lemma map_of_fold_update:
  "map_of (fold (\<lambda>k. AList.update k (f k)) ks al)
     = (\<lambda>x. if x \<in> set ks then Some (f x) else map_of al x)"
proof (induction ks arbitrary: al)
  case Nil
  then show ?case by simp
next
  case (Cons k ks)
  show ?case by (auto simp: Cons.IH update_conv')
qed



lemma rowId_applyConflict:
  "''id'' \<notin> set ks \<Longrightarrow> rowId (applyConflict ks touch ex now old) = rowId old"
  by (simp add: rowId_def applyConflict_def Let_def update_conv' map_of_fold_update)

lemma map_of_applyConflict:
  "k \<in> set ks \<Longrightarrow> ''updated_at'' \<notin> set ks \<Longrightarrow>
     map_of (applyConflict ks touch ex now old) k = Some (getProp (JObj ex) k)"
  by (auto simp: applyConflict_def Let_def update_conv' map_of_fold_update)



lemma filter_all: "\<forall>x \<in> set xs. P x \<Longrightarrow> filter P xs = xs"
  by (induction xs) simp_all

lemma filter_none: "\<forall>x \<in> set xs. \<not> P x \<Longrightarrow> filter P xs = []"
  by (induction xs) simp_all

lemma upsertRow_conflict:
  assumes "nullViolation t r = None" and "rowId r \<in> set (map rowId (db t))"
  shows "upsertRow t r ks touch now db
           = Inr (map (applyConflict ks touch r now) (filter (\<lambda>old. rowId old = rowId r) (db t)),
                  db(t := filter (\<lambda>old. rowId old \<noteq> rowId r) (db t)
                          @ map (applyConflict ks touch r now)
                              (filter (\<lambda>old. rowId old = rowId r) (db t))))"
  using assms by (simp add: upsertRow_def Let_def)

lemma upsertRow_fresh:
  assumes "nullViolation t r = None" and "rowId r \<notin> set (map rowId (db t))"
  shows "upsertRow t r ks touch now db = Inr ([r], db(t := db t @ [r]))"
  using assms by (simp add: upsertRow_def)

lemma upsertRow_null:
  assumes "nullViolation t r = Some k"
  shows "upsertRow t r ks touch now db = Inl (NotNullViolation k)"
  using assms by (simp add: upsertRow_def)




lemma dbToApi_cong:
  assumes "c \<in> set validCollections"
    and "\<forall>k \<in> set (insertColumns v c). getProp (JObj a) k = getProp (JObj b) k"
  shows "dbToApi v (JObj a) c = dbToApi v (JObj b) c"
proof (rule valid_collection_cases [OF assms(1)])
  assume "c = ''employees''"
  with assms(2) show ?thesis by (simp add: dbToApi_def insertColumns_def del: getProp.simps)
next
  assume "c = ''timerecords''"
  with assms(2) show ?thesis by (simp add: dbToApi_def insertColumns_def del: getProp.simps)
next
  assume "c = ''locations''"
  with assms(2) show ?thesis by (simp add: dbToApi_def insertColumns_def del: getProp.simps)
next
  assume "c = ''departments''"
  with assms(2) show ?thesis by (simp add: dbToApi_def insertColumns_def del: getProp.simps)
next
  assume "c = ''settings''"
  with assms(2) show ?thesis
    by (cases v) (simp_all add: dbToApi_def insertColumns_def del: getProp.simps)
qed







section \<open>Upsert\<close>

lemmas eval_defs = put_collection_id_def post_collection_def get_collection_id_def
  delete_collection_id_def get_collection_def
  validCollections_def sqlUpsert_def sqlInsert_def sqlDelete_def sqlSelectById_def sqlSelectAll_def
  upsertRow_def insertRow_def newRow_def nullViolation_def notNullColumns_def tableColumns_def
  storeValue_def storeText_def textValue_def strictEngine_def
  insertColumns_def rowValues_def conflictColumns_def conflictTouches_def timestampColumns_def
  pgParam_def js_or_def rowId_def emptyDB_def dbToApi_def firstRow_def applyConflict_def Let_def
  json_ok_def json_error_def



section \<open>The primary key\<close>

lemma stored_id:
  assumes valid: "c \<in> set validCollections"
    and st: "storeColumns eng (map_of (tableColumns v c)) (insertColumns v c)
               (rowValues v c idv data) = Inr ws"
  shows "storeValue eng (VARCHAR 100) (pgParam idv)
           = Some (rowId (newRow c (insertColumns v c) ws now))"
proof -
  obtain vs where vs: "rowValues v c idv data = idv # vs"
    using rowValues_hd [OF valid] by blast
  have c1: "insertColumns v c = ''id'' # conflictColumns v c" by (rule insertColumns_id [OF valid])
  obtain w ws' where w: "ws = w # ws'"
    "Option.bind (map_of (tableColumns v c) ''id'') (\<lambda>t. storeValue eng t (pgParam idv)) = Some w"
    using storeColumns_hd [OF st [unfolded c1 vs]] by blast
  show ?thesis
    using w by (simp add: c1 rowId_newRow id_column_type [OF valid])
qed

lemma insert_keeps_unique:
  assumes "insertRow t r db = Inr (rows, db')"
    and "distinct (map rowId (db u))"
  shows "distinct (map rowId (db' u))"
  using assms by (auto simp: insertRow_def split: option.splits if_splits)

lemma distinct_moved:
  assumes "distinct (map f xs)"
  shows "distinct (map f (filter (\<lambda>x. f x \<noteq> k) xs) @ map f (filter (\<lambda>x. f x = k) xs))"
  using assms by (auto simp: distinct_map_filter)

lemma upsert_keeps_unique:
  assumes noid: "''id'' \<notin> set ks"
    and up: "upsertRow t r ks touch now db = Inr (rows, db')"
    and dist: "distinct (map rowId (db u))"
  shows "distinct (map rowId (db' u))"
proof -
  have same: "map rowId (map (applyConflict ks touch r now) xs) = map rowId xs" for xs
    by (induction xs) (simp_all add: rowId_applyConflict [OF noid])
  have nv: "nullViolation t r = None"
    using up by (auto simp: upsertRow_def split: option.splits)
  show ?thesis
  proof (cases "rowId r \<in> set (map rowId (db t))")
    case True
    have db': "db' = db(t := filter (\<lambda>old. rowId old \<noteq> rowId r) (db t)
                          @ map (applyConflict ks touch r now)
                              (filter (\<lambda>old. rowId old = rowId r) (db t)))"
      using up upsertRow_conflict [where db=db and t=t and r=r, OF nv True, of ks touch now] by auto
    show ?thesis
    proof (cases "u = t")
      case True
      have "distinct (map rowId (filter (\<lambda>x. rowId x \<noteq> rowId r) (db t))
              @ map rowId (filter (\<lambda>x. rowId x = rowId r) (db t)))"
        using dist True by (intro distinct_moved) simp
      then show ?thesis using True by (simp add: db' same del: map_map)
    next
      case False
      then show ?thesis using dist by (simp add: db')
    qed
  next
    case False
    have db': "db' = db(t := db t @ [r])"
      using up upsertRow_fresh [where db=db and t=t and r=r, OF nv False, of ks touch now] by auto
    show ?thesis using dist False by (auto simp: db')
  qed
qed

lemma delete_keeps_unique:
  assumes "distinct (map rowId (db u))"
  shows "distinct (map rowId (snd (sqlDelete t i db) u))"
  using assms distinct_map_filter [of rowId "db t" "\<lambda>r. rowId r \<noteq> JStr i"]
  by (auto simp: sqlDelete_def)

lemma serve_keeps_unique:
  assumes "distinct (map rowId (db u))"
  shows "distinct (map rowId (snd (serve eng v r db) u))"
proof (cases r)
  case (Create c data now)
  show ?thesis
    using assms insert_keeps_unique [where db=db and u=u]
    by (auto simp: Create post_collection_def sqlInsert_def split: sum.splits)
next
  case (Upsert c i data now)
  show ?thesis
    using assms upsert_keeps_unique [OF id_not_conflict, where db=db and u=u]
    by (auto simp: Upsert put_collection_id_def sqlUpsert_def split: sum.splits)
next
  case (Delete c i)
  show ?thesis
    using assms delete_keeps_unique [of db u c i]
    by (auto simp: Delete delete_collection_id_def split: prod.splits)
qed

lemma serveAll_keeps_unique:
  "distinct (map rowId (db u)) \<Longrightarrow> distinct (map rowId (serveAll eng v rs db u))"
  by (induction rs arbitrary: db) (simp_all add: serve_keeps_unique)

lemma at_most_one:
  "distinct (map f xs) \<Longrightarrow> length (filter (\<lambda>r. f r = x) xs) \<le> Suc 0"
proof (induction xs)
  case Nil
  then show ?case by simp
next
  case (Cons a xs)
  show ?case
  proof (cases "f a = x")
    case True
    then have "\<forall>y \<in> set xs. f y \<noteq> x" using Cons.prems by (auto simp: image_iff)
    then have "filter (\<lambda>r. f r = x) xs = []" by (simp add: filter_empty_conv)
    then show ?thesis using True by simp
  next
    case False
    then show ?thesis using Cons by simp
  qed
qed

lemma post_existing_id:
  assumes valid: "c \<in> set validCollections"
    and st: "storeValue eng (VARCHAR 100) (pgParam (getProp data ''id'')) = Some k"
    and ex: "k \<in> set (map rowId (db c))"
  shows "status (fst (post_collection eng v c data now db)) = 500 \<and>
         snd (post_collection eng v c data now db) = db"
proof (cases "storeColumns eng (map_of (tableColumns v c)) (insertColumns v c)
                (rowValues v c (getProp data ''id'') data)")
  case (Inl e)
  then show ?thesis
    using valid by (simp add: post_collection_def sqlInsert_def json_error_def)
next
  case (Inr ws)
  have "rowId (newRow c (insertColumns v c) ws now) = k"
    using stored_id [OF valid Inr, of now] st by simp
  then show ?thesis
    using valid Inr ex
    by (simp add: post_collection_def sqlInsert_def insertRow_def json_error_def
        split: option.splits)
qed

text \<open>
  C7. Id uniqueness is an invariant of the store. From a store in which no table holds
  two rows with the same id, every sequence of create, upsert and delete requests leads
  to such a store again, so a lookup by id finds at most one row. In particular a
  create whose id, as the id column stores it, is already in the table is rejected: the
  statement fails on the primary key (or on a \<open>NOT NULL\<close> column), the answer is 500
  and the store is unchanged.
\<close>

theorem primary_key_invariant:
  assumes "pk_unique db"
  shows "pk_unique (serveAll eng v rs db) \<and>
         (c \<in> set validCollections \<longrightarrow> length (sqlSelectById c i (serveAll eng v rs db)) \<le> 1) \<and>
         (c \<in> set validCollections \<and>
          storeValue eng (VARCHAR 100) (pgParam (getProp data ''id'')) = Some k \<and>
          k \<in> set (map rowId (serveAll eng v rs db c)) \<longrightarrow>
            status (fst (post_collection eng v c data now (serveAll eng v rs db))) = 500 \<and>
            snd (post_collection eng v c data now (serveAll eng v rs db)) = serveAll eng v rs db)"
proof -
  have u: "\<forall>t \<in> set validCollections. distinct (map rowId (serveAll eng v rs db t))"
    using assms by (simp add: pk_unique_def list_all_iff serveAll_keeps_unique)
  then have "pk_unique (serveAll eng v rs db)"
    by (simp add: pk_unique_def list_all_iff)
  moreover have "c \<in> set validCollections \<longrightarrow> length (sqlSelectById c i (serveAll eng v rs db)) \<le> 1"
    using u by (simp add: sqlSelectById_def at_most_one)
  ultimately show ?thesis
    using post_existing_id by simp
qed

theorem primary_key_invariant_witness:
  "pk_unique emptyDB \<and>
   pk_unique (serveAll strictEngine Kiosk
      [Create ''departments'' (JObj [(''id'', JStr ''DEP001''), (''name'', JStr ''Engineering'')]) (JNum 1),
       Upsert ''departments'' ''DEP001'' (JObj [(''name'', JStr ''Research'')]) (JNum 2),
       Delete ''locations'' ''LOC001''] emptyDB) \<and>
   ''departments'' \<in> set validCollections \<and>
   storeValue strictEngine (VARCHAR 100)
     (pgParam (getProp (JObj [(''id'', JStr ''DEP001''), (''name'', JStr ''Sales'')]) ''id''))
     = Some (JStr ''DEP001'') \<and>
   JStr ''DEP001'' \<in> set (map rowId (serveAll strictEngine Kiosk
      [Create ''departments'' (JObj [(''id'', JStr ''DEP001''), (''name'', JStr ''Engineering'')]) (JNum 1),
       Upsert ''departments'' ''DEP001'' (JObj [(''name'', JStr ''Research'')]) (JNum 2),
       Delete ''locations'' ''LOC001''] emptyDB ''departments'')) \<and>
   status (fst (post_collection strictEngine Kiosk ''departments''
      (JObj [(''id'', JStr ''DEP001''), (''name'', JStr ''Sales'')]) (JNum 3)
      (serveAll strictEngine Kiosk
      [Create ''departments'' (JObj [(''id'', JStr ''DEP001''), (''name'', JStr ''Engineering'')]) (JNum 1),
       Upsert ''departments'' ''DEP001'' (JObj [(''name'', JStr ''Research'')]) (JNum 2),
       Delete ''locations'' ''LOC001''] emptyDB))) = 500"
proof -
  have h: "pk_unique emptyDB"
    by (simp add: pk_unique_def emptyDB_def validCollections_def)
  have v: "''departments'' \<in> set validCollections"
    by (simp add: validCollections_def)
  have s: "storeValue strictEngine (VARCHAR 100)
     (pgParam (getProp (JObj [(''id'', JStr ''DEP001''), (''name'', JStr ''Sales'')]) ''id''))
     = Some (JStr ''DEP001'')"
    by (simp add: storeValue_def storeText_def textValue_def pgParam_def)
  have e: "JStr ''DEP001'' \<in> set (map rowId (serveAll strictEngine Kiosk
      [Create ''departments'' (JObj [(''id'', JStr ''DEP001''), (''name'', JStr ''Engineering'')]) (JNum 1),
       Upsert ''departments'' ''DEP001'' (JObj [(''name'', JStr ''Research'')]) (JNum 2),
       Delete ''locations'' ''LOC001''] emptyDB ''departments''))"
    by (simp add: eval_defs)
  from primary_key_invariant [OF h, of strictEngine Kiosk
      "[Create ''departments'' (JObj [(''id'', JStr ''DEP001''), (''name'', JStr ''Engineering'')]) (JNum 1),
       Upsert ''departments'' ''DEP001'' (JObj [(''name'', JStr ''Research'')]) (JNum 2),
       Delete ''locations'' ''LOC001'']" "''departments''" "''DEP001''"
      "JObj [(''id'', JStr ''DEP001''), (''name'', JStr ''Sales'')]" "JStr ''DEP001''" "JNum 3"] h v s e
  show ?thesis by simp
qed

section \<open>Scenario: upsert creates\<close>

text \<open>
  C8. Upsert on an id that is not in the table creates the record: when no location
  \<open>LOC099\<close> exists, \<open>PUT /locations/LOC099\<close> with the body \<open>{name: "Annex"}\<close>
  answers 200 and appends one row, and \<open>GET /locations/LOC099\<close> then answers with
  \<open>{id: "LOC099", name: "Annex", abbreviation: null}\<close>.
\<close>

theorem upsert_creates_missing_location:
  assumes "sqlSelectById ''locations'' ''LOC099'' db = []"
  shows "status (fst (put_collection_id eng v ''locations'' ''LOC099''
                        (JObj [(''name'', JStr ''Annex'')]) now db)) = 200 \<and>
         putOnce eng v ''locations'' ''LOC099'' (JObj [(''name'', JStr ''Annex'')]) now db ''locations''
           = db ''locations'' @ [[(''id'', JStr ''LOC099''), (''name'', JStr ''Annex''),
                                  (''abbreviation'', JNull), (''created_at'', now)]] \<and>
         fst (get_collection_id v ''locations'' ''LOC099''
                (putOnce eng v ''locations'' ''LOC099'' (JObj [(''name'', JStr ''Annex'')]) now db))
           = json_ok (JObj [(''id'', JStr ''LOC099''), (''name'', JStr ''Annex''),
                            (''abbreviation'', JNull)])"
proof -
  have none: "\<forall>r \<in> set (db ''locations''). rowId r \<noteq> JStr ''LOC099''"
    using assms by (simp add: sqlSelectById_def filter_empty_conv)
  then have notin: "JStr ''LOC099'' \<notin> rowId ` set (db ''locations'')"
    by (auto simp: image_iff)
  have f: "filter (\<lambda>r. rowId r = JStr ''LOC099'') (db ''locations'') = []"
    using none by (simp add: filter_empty_conv)
  have put: "put_collection_id eng v ''locations'' ''LOC099'' (JObj [(''name'', JStr ''Annex'')]) now db
            = (json_ok (JObj [(''id'', JStr ''LOC099''), (''name'', JStr ''Annex''),
                              (''abbreviation'', JNull)]),
               db(''locations'' := db ''locations'' @
                      [[(''id'', JStr ''LOC099''), (''name'', JStr ''Annex''),
                        (''abbreviation'', JNull), (''created_at'', now)]]))"
    using notin
    by (simp add: put_collection_id_def validCollections_def sqlUpsert_def upsertRow_def newRow_def
        tableColumns_def storeValue_def storeText_def textValue_def
        nullViolation_def notNullColumns_def insertColumns_def rowValues_def timestampColumns_def
        pgParam_def js_or_def Let_def rowId_def firstRow_def dbToApi_def)
  have get: "fst (get_collection_id v ''locations'' ''LOC099''
               (db(''locations'' := db ''locations'' @
                      [[(''id'', JStr ''LOC099''), (''name'', JStr ''Annex''),
                        (''abbreviation'', JNull), (''created_at'', now)]])))
             = json_ok (JObj [(''id'', JStr ''LOC099''), (''name'', JStr ''Annex''),
                            (''abbreviation'', JNull)])"
    using f
    by (simp add: get_collection_id_def validCollections_def sqlSelectById_def Let_def
        firstRow_def dbToApi_def rowId_def)
  show ?thesis
    by (simp add: putOnce_def put get) (simp add: json_ok_def)
qed

theorem upsert_creates_missing_location_witness:
  "sqlSelectById ''locations'' ''LOC099'' emptyDB = [] \<and>
   fst (get_collection_id Kiosk ''locations'' ''LOC099''
          (putOnce strictEngine Kiosk ''locations'' ''LOC099'' (JObj [(''name'', JStr ''Annex'')])
             (JNum 7) emptyDB))
     = json_ok (JObj [(''id'', JStr ''LOC099''), (''name'', JStr ''Annex''),
                      (''abbreviation'', JNull)])"
proof -
  have h: "sqlSelectById ''locations'' ''LOC099'' emptyDB = []"
    by (simp add: sqlSelectById_def emptyDB_def)
  from upsert_creates_missing_location [OF h, of strictEngine Kiosk "JNum 7"] h
  show ?thesis by simp
qed

section \<open>Upsert under the body's id\<close>

lemma storeText_take: "storeText (Some n) s = Some s' \<Longrightarrow> s' = take n s"
  by (auto simp: storeText_def split: if_splits)

lemma stored_string:
  "storeValue eng (VARCHAR n) (pgParam (JStr b)) = Some w \<Longrightarrow> w = JStr (take n b)"
  by (auto simp: storeValue_def textValue_def pgParam_def dest: storeText_take)

lemma upsert_frame:
  assumes noid: "''id'' \<notin> set ks"
    and up: "upsertRow t r ks touch now db = Inr (rows, db')"
    and other: "x \<noteq> rowId r"
  shows "filter (\<lambda>y. rowId y = x) (db' u) = filter (\<lambda>y. rowId y = x) (db u)"
proof -
  have nv: "nullViolation t r = None"
    using up by (auto simp: upsertRow_def split: option.splits)
  show ?thesis
  proof (cases "rowId r \<in> set (map rowId (db t))")
    case True
    have db': "db' = db(t := filter (\<lambda>old. rowId old \<noteq> rowId r) (db t)
                          @ map (applyConflict ks touch r now)
                              (filter (\<lambda>old. rowId old = rowId r) (db t)))"
      using up upsertRow_conflict [where db=db and t=t and r=r, OF nv True, of ks touch now] by auto
    have a: "filter (\<lambda>y. rowId y = x) (filter (\<lambda>old. rowId old \<noteq> rowId r) xs)
               = filter (\<lambda>y. rowId y = x) xs" for xs
      using other by (induction xs) auto
    have b: "filter (\<lambda>y. rowId y = x) (map (applyConflict ks touch r now)
               (filter (\<lambda>old. rowId old = rowId r) xs)) = []" for xs
      using other by (induction xs) (auto simp: rowId_applyConflict [OF noid])
    show ?thesis by (simp add: db' a b del: filter_filter)
  next
    case False
    have db': "db' = db(t := db t @ [r])"
      using up upsertRow_fresh [where db=db and t=t and r=r, OF nv False, of ks touch now] by auto
    show ?thesis using other by (auto simp: db')
  qed
qed

lemma upsert_stores:
  assumes cols: "cols = ''id'' # ks" and noid: "''id'' \<notin> set ks"
    and noua: "''updated_at'' \<notin> set ks"
    and up: "upsertRow t r ks touch now db = Inr (rows, db')"
  shows "rows = filter (\<lambda>y. rowId y = rowId r) (db' t)"
    and "rows \<noteq> []"
    and "\<forall>y \<in> set rows. \<forall>k \<in> set cols. getProp (JObj y) k = getProp (JObj r) k"
proof -
  define ac where "ac = applyConflict ks touch r now"
  have id: "rowId (ac old) = rowId old" for old
    by (simp add: ac_def rowId_applyConflict [OF noid])
  have vals: "\<forall>k \<in> set cols. getProp (JObj (ac old)) k = getProp (JObj r) k"
    if "rowId old = rowId r" for old
  proof
    fix k assume "k \<in> set cols"
    then consider "k = ''id''" | "k \<in> set ks" using cols by auto
    then show "getProp (JObj (ac old)) k = getProp (JObj r) k"
    proof cases
      case 1
      then show ?thesis using id [of old] that by (simp add: rowId_def)
    next
      case 2
      then show ?thesis
        using map_of_applyConflict [OF 2 noua, of touch r now old] by (simp add: ac_def)
    qed
  qed
  have nv: "nullViolation t r = None"
    using up by (auto simp: upsertRow_def split: option.splits)
  define A where "A = filter (\<lambda>old. rowId old \<noteq> rowId r) (db t)"
  define B where "B = filter (\<lambda>old. rowId old = rowId r) (db t)"
  have all: "rows = filter (\<lambda>y. rowId y = rowId r) (db' t) \<and> rows \<noteq> [] \<and>
             (\<forall>y \<in> set rows. \<forall>k \<in> set cols. getProp (JObj y) k = getProp (JObj r) k)"
  proof (cases "rowId r \<in> set (map rowId (db t))")
    case True
    have res: "rows = map ac B" "db' = db(t := A @ map ac B)"
      using up upsertRow_conflict [where db=db and t=t and r=r, OF nv True, of ks touch now]
      by (auto simp: A_def B_def ac_def)
    have Bne: "B \<noteq> []" using True by (auto simp: B_def filter_empty_conv)
    have inB: "\<forall>x \<in> set (map ac B). rowId x = rowId r" by (auto simp: id B_def)
    have inA: "\<forall>x \<in> set A. rowId x \<noteq> rowId r" by (auto simp: A_def)
    have fA: "filter (\<lambda>old. rowId old = rowId r) A = []"
      using inA by (simp add: filter_none)
    have fB: "filter (\<lambda>old. rowId old = rowId r) (map ac B) = map ac B"
      using inB by (simp add: filter_all del: set_map filter_map)
    have sel: "rows = filter (\<lambda>y. rowId y = rowId r) (db' t)"
      by (simp add: res fA fB del: filter_map)
    have vs: "\<forall>y \<in> set rows. \<forall>k \<in> set cols. getProp (JObj y) k = getProp (JObj r) k"
    proof
      fix y assume "y \<in> set rows"
      then obtain old where "old \<in> set B" "y = ac old" by (auto simp: res)
      then show "\<forall>k \<in> set cols. getProp (JObj y) k = getProp (JObj r) k"
        using vals [of old] by (simp add: B_def)
    qed
    have ne: "rows \<noteq> []" using Bne by (simp add: res)
    show ?thesis by (intro conjI sel ne vs)
  next
    case False
    have res: "rows = [r]" "db' = db(t := db t @ [r])"
      using up upsertRow_fresh [where db=db and t=t and r=r, OF nv False, of ks touch now] by auto
    have "\<forall>y \<in> set (db t). rowId y \<noteq> rowId r"
      using False by (metis image_eqI list.set_map)
    then have "filter (\<lambda>y. rowId y = rowId r) (db t) = []"
      by (simp add: filter_empty_conv)
    then show ?thesis by (simp add: res)
  qed
  show "rows = filter (\<lambda>y. rowId y = rowId r) (db' t)" using all by (rule conjunct1)
  show "rows \<noteq> []" using all by (rule conjunct2 [THEN conjunct1])
  show "\<forall>y \<in> set rows. \<forall>k \<in> set cols. getProp (JObj y) k = getProp (JObj r) k"
    using all by (rule conjunct2 [THEN conjunct2])
qed

lemma upsertRow_succeeds:
  assumes "nullViolation t r = None"
  shows "\<exists>rows db'. upsertRow t r ks touch now db = Inr (rows, db')"
  using assms by (simp add: upsertRow_def Let_def)

lemma longId_facts:
  "length longId = 100" "set longId = {CHR ''a''}" "longId \<noteq> []"
  by (auto simp: longId_def)

lemma storeText_longId:
  "storeText (Some 100) longId = Some longId"
  "storeText (Some 100) (longId @ '' '') = Some longId"
  by (simp_all add: storeText_def longId_facts)

lemma storeText_short:
  "CHR 0x00 \<notin> set s \<Longrightarrow> length s \<le> n \<Longrightarrow> storeText (Some n) s = Some s"
  by (simp add: storeText_def)

lemmas eval_longId = put_collection_id_def get_collection_id_def
  validCollections_def sqlUpsert_def sqlSelectById_def
  upsertRow_def newRow_def nullViolation_def notNullColumns_def tableColumns_def
  storeValue_def textValue_def storeText_longId storeText_short
  insertColumns_def rowValues_def conflictColumns_def conflictTouches_def timestampColumns_def
  pgParam_def js_or_def rowId_def emptyDB_def dbToApi_def firstRow_def applyConflict_def Let_def
  json_ok_def json_error_def

text \<open>
  C9, as stated, fails. The id column is \<open>VARCHAR(100)\<close>, which stores a longer text
  whose excess is only spaces cut to its first hundred characters. With a path id of one
  hundred characters and a body id that is the path id followed by a space, the body id
  is not empty and differs from the path id, yet the upsert lands on the record stored
  under the path id and changes its name.
\<close>

theorem trailing_space_id_reaches_path_record:
  "getProp (JObj [(''id'', JStr (longId @ '' '')), (''name'', JStr ''New'')]) ''id''
     = JStr (longId @ '' '') \<and>
   longId @ '' '' \<noteq> [] \<and> longId @ '' '' \<noteq> longId \<and>
   putOnce strictEngine Kiosk ''departments'' longId (JObj [(''name'', JStr ''Old'')]) (JNum 1) emptyDB
     = emptyDB(''departments'' := [[(''id'', JStr longId), (''name'', JStr ''Old''), (''created_at'', JNum 1)]]) \<and>
   sqlSelectById ''departments'' longId
     (emptyDB(''departments'' := [[(''id'', JStr longId), (''name'', JStr ''Old''), (''created_at'', JNum 1)]]))
     = [[(''id'', JStr longId), (''name'', JStr ''Old''), (''created_at'', JNum 1)]] \<and>
   sqlSelectById ''departments'' longId
     (putOnce strictEngine Kiosk ''departments'' longId
        (JObj [(''id'', JStr (longId @ '' '')), (''name'', JStr ''New'')]) (JNum 2)
        (emptyDB(''departments'' := [[(''id'', JStr longId), (''name'', JStr ''Old''), (''created_at'', JNum 1)]])))
     = [[(''id'', JStr longId), (''name'', JStr ''New''), (''created_at'', JNum 1)]]"
proof -
  have ne: "longId \<noteq> []" by (rule longId_facts)
  show ?thesis
    using ne by (simp add: putOnce_def eval_longId strictEngine_def)
qed

text \<open>
  C9, amended. In both PostgreSQL servers, when the body of \<open>PUT /:collection/:id\<close>
  carries a non-empty string id whose first hundred characters (the whole id when it is
  no longer than the id column) differ from the path id, the upsert is applied under the
  body's id as the column stores it. The rows found under the path id are the same before
  and after. The request answers 200 exactly when the collection is one of the five, every
  value is accepted by its column and no \<open>NOT NULL\<close> column is null, whether or not a
  record with the body's id exists; then the answer is the wire form of the proposed row,
  which is the row the create handler builds for the body, every row then found under the
  body's id carries the proposed values, and a \<open>GET\<close> under the body's id answers with
  the same wire record. When the answer is not 200 the store is unchanged.
\<close>

theorem body_id_takes_precedence:
  assumes bid: "getProp data ''id'' = JStr b" and ne: "b \<noteq> []" and diff: "take 100 b \<noteq> i"
  shows "sqlSelectById c i (putOnce eng v c i data now db) = sqlSelectById c i db \<and>
         upsertToDb eng v c i data now = apiToDb eng v c data now \<and>
         ((status (fst (put_collection_id eng v c i data now db)) = 200)
            = (c \<in> set validCollections \<and>
               (\<exists>r'. upsertToDb eng v c i data now = Inr r' \<and> nullViolation c r' = None))) \<and>
         (c \<in> set validCollections \<and> upsertToDb eng v c i data now = Inr r \<and>
          nullViolation c r = None \<longrightarrow>
            rowId r = JStr (take 100 b) \<and>
            body (fst (put_collection_id eng v c i data now db)) = dbToApi v (JObj r) c \<and>
            sqlSelectById c (take 100 b) (putOnce eng v c i data now db) \<noteq> [] \<and>
            (\<forall>y \<in> set (sqlSelectById c (take 100 b) (putOnce eng v c i data now db)).
               \<forall>k \<in> set (insertColumns v c). getProp (JObj y) k = getProp (JObj r) k) \<and>
            fst (get_collection_id v c (take 100 b) (putOnce eng v c i data now db))
              = json_ok (dbToApi v (JObj r) c)) \<and>
         (status (fst (put_collection_id eng v c i data now db)) \<noteq> 200 \<longrightarrow>
            putOnce eng v c i data now db = db)"
proof -
  have idv: "js_or (getProp data ''id'') (JStr i) = JStr b"
    using bid ne by (simp add: js_or_def)
  have same: "upsertToDb eng v c i data now = apiToDb eng v c data now"
    unfolding upsertToDb_def apiToDb_def idv by (simp only: bid)
  have failed: ?thesis
    if put: "put_collection_id eng v c i data now db = (json_error code msg, db)"
      and code: "code \<noteq> 200"
      and no: "c \<in> set validCollections \<Longrightarrow>
                 \<forall>r'. upsertToDb eng v c i data now = Inr r' \<longrightarrow> nullViolation c r' \<noteq> None"
    for code :: nat and msg
  proof -
    have st: "status (fst (put_collection_id eng v c i data now db)) \<noteq> 200"
      using code by (simp add: put json_error_def)
    have nex: "\<not> (c \<in> set validCollections \<and>
               (\<exists>r'. upsertToDb eng v c i data now = Inr r' \<and> nullViolation c r' = None))"
      using no by blast
    have fr: "sqlSelectById c i (putOnce eng v c i data now db) = sqlSelectById c i db"
      by (simp add: putOnce_def put)
    have ch: "(status (fst (put_collection_id eng v c i data now db)) = 200)
            = (c \<in> set validCollections \<and>
               (\<exists>r'. upsertToDb eng v c i data now = Inr r' \<and> nullViolation c r' = None))"
      using st nex by (simp only: simp_thms)
    have imp: "c \<in> set validCollections \<and> upsertToDb eng v c i data now = Inr r \<and>
          nullViolation c r = None \<longrightarrow>
            rowId r = JStr (take 100 b) \<and>
            body (fst (put_collection_id eng v c i data now db)) = dbToApi v (JObj r) c \<and>
            sqlSelectById c (take 100 b) (putOnce eng v c i data now db) \<noteq> [] \<and>
            (\<forall>y \<in> set (sqlSelectById c (take 100 b) (putOnce eng v c i data now db)).
               \<forall>k \<in> set (insertColumns v c). getProp (JObj y) k = getProp (JObj r) k) \<and>
            fst (get_collection_id v c (take 100 b) (putOnce eng v c i data now db))
              = json_ok (dbToApi v (JObj r) c)"
      using nex by blast
    have un: "status (fst (put_collection_id eng v c i data now db)) \<noteq> 200 \<longrightarrow>
            putOnce eng v c i data now db = db"
      by (simp add: putOnce_def put)
    show ?thesis by (intro conjI fr same ch imp un)
  qed
  show ?thesis
  proof (cases "c \<in> set validCollections")
    case False
    have put: "put_collection_id eng v c i data now db
                 = (json_error 404 ''Collection not found'', db)"
      using False by (simp add: put_collection_id_def)
    show ?thesis
    proof (rule failed [OF put])
      show "(404::nat) \<noteq> 200" by simp
    next
      assume "c \<in> set validCollections"
      with False show "\<forall>r'. upsertToDb eng v c i data now = Inr r' \<longrightarrow> nullViolation c r' \<noteq> None"
        by simp
    qed
  next
    case True
    show ?thesis
    proof (cases "storeColumns eng (map_of (tableColumns v c)) (insertColumns v c)
                    (rowValues v c (JStr b) data)")
      case (Inl e)
      have put: "put_collection_id eng v c i data now db = (json_error 500 (errorText eng e), db)"
        using True Inl by (simp add: put_collection_id_def sqlUpsert_def idv)
      have "upsertToDb eng v c i data now = Inl e"
        by (simp add: upsertToDb_def idv Inl)
      then have no: "\<forall>r'. upsertToDb eng v c i data now = Inr r' \<longrightarrow> nullViolation c r' \<noteq> None"
        by simp
      show ?thesis
      proof (rule failed [OF put])
        show "(500::nat) \<noteq> 200" by simp
      qed (rule no)
    next
      case (Inr ws)
      define r0 where "r0 = newRow c (insertColumns v c) ws now"
      have up0: "upsertToDb eng v c i data now = Inr r0"
        by (simp add: upsertToDb_def idv Inr r0_def)
      have rid: "rowId r0 = JStr (take 100 b)"
        using stored_id [OF True Inr, of now] stored_string [of eng 100 b] by (simp add: r0_def)
      have put0: "put_collection_id eng v c i data now db
                   = (case upsertRow c r0 (conflictColumns v c) (conflictTouches c) now db of
                        Inl err \<Rightarrow> (json_error 500 (errorText eng err), db)
                      | Inr (rows, db') \<Rightarrow> (json_ok (dbToApi v (firstRow rows) c), db'))"
        using True by (simp add: put_collection_id_def sqlUpsert_def idv Inr r0_def)
      show ?thesis
      proof (cases "nullViolation c r0")
        case (Some k)
        have put: "put_collection_id eng v c i data now db
                = (json_error 500 (errorText eng (NotNullViolation k)), db)"
          by (simp add: put0 upsertRow_null [OF Some])
        have no: "\<forall>r'. upsertToDb eng v c i data now = Inr r' \<longrightarrow> nullViolation c r' \<noteq> None"
          using Some by (simp add: up0)
        show ?thesis
        proof (rule failed [OF put])
          show "(500::nat) \<noteq> 200" by simp
        qed (rule no)
      next
        case None
        obtain rows db' where up: "upsertRow c r0 (conflictColumns v c) (conflictTouches c) now db
                                     = Inr (rows, db')"
          using upsertRow_succeeds [OF None] by blast
        have put: "put_collection_id eng v c i data now db
                     = (json_ok (dbToApi v (firstRow rows) c), db')"
          by (simp add: put0 up)
        have c1: "insertColumns v c = ''id'' # conflictColumns v c"
          by (rule insertColumns_id [OF True])
        have c3: "''updated_at'' \<notin> set (conflictColumns v c)"
          using updated_at_not_inserted [of v c] c1 by simp
        have other: "JStr i \<noteq> rowId r0" using diff by (simp add: rid)
        have frame: "sqlSelectById c i db' = sqlSelectById c i db"
          unfolding sqlSelectById_def by (rule upsert_frame [OF id_not_conflict up other])
        note st = upsert_stores [OF c1 id_not_conflict c3 up]
        have sel: "sqlSelectById c (take 100 b) db' = rows"
          using st(1) by (simp add: sqlSelectById_def rid)
        obtain y ys where y: "rows = y # ys" using st(2) by (cases rows) auto
        have "\<forall>k \<in> set (insertColumns v c). getProp (JObj y) k = getProp (JObj r0) k"
          using st(3) by (simp add: y del: getProp.simps)
        then have wire: "dbToApi v (firstRow rows) c = dbToApi v (JObj r0) c"
          using dbToApi_cong [OF True] by (simp add: y firstRow_def)
        have get: "fst (get_collection_id v c (take 100 b) db') = json_ok (dbToApi v (JObj r0) c)"
          using True st(2) by (simp add: get_collection_id_def sel wire)
        have ok: "status (fst (put_collection_id eng v c i data now db)) = 200"
          by (simp add: put json_ok_def)
        have bd: "body (fst (put_collection_id eng v c i data now db)) = dbToApi v (JObj r0) c"
          by (simp add: put json_ok_def wire)
        have eff: "rowId r0 = JStr (take 100 b) \<and>
            body (fst (put_collection_id eng v c i data now db)) = dbToApi v (JObj r0) c \<and>
            sqlSelectById c (take 100 b) (putOnce eng v c i data now db) \<noteq> [] \<and>
            (\<forall>y \<in> set (sqlSelectById c (take 100 b) (putOnce eng v c i data now db)).
               \<forall>k \<in> set (insertColumns v c). getProp (JObj y) k = getProp (JObj r0) k) \<and>
            fst (get_collection_id v c (take 100 b) (putOnce eng v c i data now db))
              = json_ok (dbToApi v (JObj r0) c)"
          using rid bd st(2) st(3) get by (simp add: putOnce_def put sel del: getProp.simps)
        have fr: "sqlSelectById c i (putOnce eng v c i data now db) = sqlSelectById c i db"
          by (simp add: putOnce_def put frame)
        have ch: "(status (fst (put_collection_id eng v c i data now db)) = 200)
            = (c \<in> set validCollections \<and>
               (\<exists>r'. upsertToDb eng v c i data now = Inr r' \<and> nullViolation c r' = None))"
          using ok True None by (simp add: up0)
        have imp: "c \<in> set validCollections \<and> upsertToDb eng v c i data now = Inr r \<and>
          nullViolation c r = None \<longrightarrow>
            rowId r = JStr (take 100 b) \<and>
            body (fst (put_collection_id eng v c i data now db)) = dbToApi v (JObj r) c \<and>
            sqlSelectById c (take 100 b) (putOnce eng v c i data now db) \<noteq> [] \<and>
            (\<forall>y \<in> set (sqlSelectById c (take 100 b) (putOnce eng v c i data now db)).
               \<forall>k \<in> set (insertColumns v c). getProp (JObj y) k = getProp (JObj r) k) \<and>
            fst (get_collection_id v c (take 100 b) (putOnce eng v c i data now db))
              = json_ok (dbToApi v (JObj r) c)"
        proof
          assume "c \<in> set validCollections \<and> upsertToDb eng v c i data now = Inr r \<and>
            nullViolation c r = None"
          then have r: "r = r0" by (simp add: up0)
          show "rowId r = JStr (take 100 b) \<and>
            body (fst (put_collection_id eng v c i data now db)) = dbToApi v (JObj r) c \<and>
            sqlSelectById c (take 100 b) (putOnce eng v c i data now db) \<noteq> [] \<and>
            (\<forall>y \<in> set (sqlSelectById c (take 100 b) (putOnce eng v c i data now db)).
               \<forall>k \<in> set (insertColumns v c). getProp (JObj y) k = getProp (JObj r) k) \<and>
            fst (get_collection_id v c (take 100 b) (putOnce eng v c i data now db))
              = json_ok (dbToApi v (JObj r) c)"
            unfolding r by (rule eff)
        qed
        have un: "status (fst (put_collection_id eng v c i data now db)) \<noteq> 200 \<longrightarrow>
            putOnce eng v c i data now db = db"
          using ok by simp
        show ?thesis by (intro conjI fr same ch imp un)
      qed
    qed
  qed
qed

theorem body_id_takes_precedence_witness:
  "getProp (JObj [(''id'', JStr ''DEP002''), (''name'', JStr ''Operations'')]) ''id'' = JStr ''DEP002'' \<and>
   ''DEP002'' \<noteq> [] \<and> take 100 ''DEP002'' \<noteq> ''DEP001'' \<and>
   ''departments'' \<in> set validCollections \<and>
   upsertToDb strictEngine Kiosk ''departments'' ''DEP001''
      (JObj [(''id'', JStr ''DEP002''), (''name'', JStr ''Operations'')]) (JNum 2)
     = Inr [(''id'', JStr ''DEP002''), (''name'', JStr ''Operations''), (''created_at'', JNum 2)] \<and>
   nullViolation ''departments''
      [(''id'', JStr ''DEP002''), (''name'', JStr ''Operations''), (''created_at'', JNum 2)] = None \<and>
   status (fst (put_collection_id strictEngine Kiosk ''departments'' ''DEP001''
     (JObj [(''id'', JStr ''DEP002''), (''name'', JStr ''Operations'')]) (JNum 2)
     (emptyDB(''departments'' :=
        [[(''id'', JStr ''DEP001''), (''name'', JStr ''Engineering''), (''created_at'', JNum 1)],
         [(''id'', JStr ''DEP002''), (''name'', JStr ''Stores''), (''created_at'', JNum 1)]])))) = 200 \<and>
   sqlSelectById ''departments'' ''DEP001''
     (putOnce strictEngine Kiosk ''departments'' ''DEP001''
        (JObj [(''id'', JStr ''DEP002''), (''name'', JStr ''Operations'')]) (JNum 2)
        (emptyDB(''departments'' :=
           [[(''id'', JStr ''DEP001''), (''name'', JStr ''Engineering''), (''created_at'', JNum 1)],
            [(''id'', JStr ''DEP002''), (''name'', JStr ''Stores''), (''created_at'', JNum 1)]])))
     = [[(''id'', JStr ''DEP001''), (''name'', JStr ''Engineering''), (''created_at'', JNum 1)]] \<and>
   fst (get_collection_id Kiosk ''departments'' ''DEP002''
     (putOnce strictEngine Kiosk ''departments'' ''DEP001''
        (JObj [(''id'', JStr ''DEP002''), (''name'', JStr ''Operations'')]) (JNum 2)
        (emptyDB(''departments'' :=
           [[(''id'', JStr ''DEP001''), (''name'', JStr ''Engineering''), (''created_at'', JNum 1)],
            [(''id'', JStr ''DEP002''), (''name'', JStr ''Stores''), (''created_at'', JNum 1)]]))))
     = json_ok (JObj [(''id'', JStr ''DEP002''), (''name'', JStr ''Operations'')])"
proof -
  let ?data = "JObj [(''id'', JStr ''DEP002''), (''name'', JStr ''Operations'')]"
  let ?db = "emptyDB(''departments'' :=
           [[(''id'', JStr ''DEP001''), (''name'', JStr ''Engineering''), (''created_at'', JNum 1)],
            [(''id'', JStr ''DEP002''), (''name'', JStr ''Stores''), (''created_at'', JNum 1)]])"
  let ?r = "[(''id'', JStr ''DEP002''), (''name'', JStr ''Operations''), (''created_at'', JNum 2)]"
  have h: "getProp ?data ''id'' = JStr ''DEP002''" by simp
  have n: "''DEP002'' \<noteq> []" by simp
  have t: "take 100 ''DEP002'' = ''DEP002''" by simp
  have d: "take 100 ''DEP002'' \<noteq> ''DEP001''" by simp
  have v: "''departments'' \<in> set validCollections" by (simp add: validCollections_def)
  have u: "upsertToDb strictEngine Kiosk ''departments'' ''DEP001'' ?data (JNum 2) = Inr ?r"
    by (simp add: upsertToDb_def eval_defs)
  have z: "nullViolation ''departments'' ?r = None"
    by (simp add: nullViolation_def notNullColumns_def)
  have before: "sqlSelectById ''departments'' ''DEP001'' ?db
      = [[(''id'', JStr ''DEP001''), (''name'', JStr ''Engineering''), (''created_at'', JNum 1)]]"
    by (simp add: sqlSelectById_def rowId_def)
  have wire: "dbToApi Kiosk (JObj ?r) ''departments''
     = JObj [(''id'', JStr ''DEP002''), (''name'', JStr ''Operations'')]"
    by (simp add: dbToApi_def)
  note main = body_id_takes_precedence [OF h n d, of "''departments''" strictEngine Kiosk "JNum 2" ?db ?r]
  have frame: "sqlSelectById ''departments'' ''DEP001''
      (putOnce strictEngine Kiosk ''departments'' ''DEP001'' ?data (JNum 2) ?db)
      = [[(''id'', JStr ''DEP001''), (''name'', JStr ''Engineering''), (''created_at'', JNum 1)]]"
    using main [THEN conjunct1] before by (simp only:)
  have st: "status (fst (put_collection_id strictEngine Kiosk ''departments'' ''DEP001'' ?data (JNum 2) ?db)) = 200"
    using main [THEN conjunct2, THEN conjunct2, THEN conjunct1] v u z by blast
  have get: "fst (get_collection_id Kiosk ''departments'' ''DEP002''
      (putOnce strictEngine Kiosk ''departments'' ''DEP001'' ?data (JNum 2) ?db))
      = json_ok (JObj [(''id'', JStr ''DEP002''), (''name'', JStr ''Operations'')])"
    using main [THEN conjunct2, THEN conjunct2, THEN conjunct2, THEN conjunct1, THEN mp, OF conjI [OF v conjI [OF u z]]]
    by (simp only: t wire)
  show ?thesis
    by (intro conjI h n d v u z st frame get)
qed

section \<open>Field mapper round trip\<close>
















section \<open>Unknown collections\<close>

text \<open>
  The PostgreSQL handlers answer 404 for every name outside \<open>validCollections\<close>, and
  the sync server answers 404 for every name that is neither registered nor another
  truthy property of the database object.
\<close>

lemma unknown_collection_not_found:
  assumes "c \<notin> set validCollections"
  shows "get_collection v c db = (json_error 404 ''Collection not found'', db)"
    and "get_collection_id v c i db = (json_error 404 ''Collection not found'', db)"
    and "post_collection eng v c data now db = (json_error 404 ''Collection not found'', db)"
    and "put_collection_id eng v c i data now db = (json_error 404 ''Collection not found'', db)"
    and "delete_collection_id v c i db = (json_error 404 ''Collection not found'', db)"
  using assms
  by (simp_all add: get_collection_def get_collection_id_def post_collection_def
      put_collection_id_def delete_collection_id_def)

lemma unregistered_collection_not_found:
  "collections db c = None \<Longrightarrow> c \<notin> set (otherProps db) \<Longrightarrow>
     sync_pull c reqBody now db = (json_error 404 ''Collection not found'', db)"
  by (simp add: sync_pull_def Let_def)

text \<open>
  C2 fails on the sync server. \<open>time_records\<close> is not one of the five collection names,
  yet \<open>POST /sync/time_records/pull\<close> is answered 200 with the documents, because
  \<open>initDB\<close> of that server registers the collection under this name;
  \<open>timerecords\<close>, which is one of the five, is answered 404 there. A name that is
  another truthy property of the database object, such as \<open>name\<close>, is answered 500.
\<close>

theorem sync_pull_serves_time_records:
  "''time_records'' \<notin> set validCollections \<and>
   fst (sync_pull ''time_records'' (JObj [(''checkpoint'', JNull)]) (JNum 0) (initDB props))
     = json_ok (JObj [(''documents'', JArr []), (''checkpoint'', JNull)]) \<and>
   (''timerecords'' \<notin> set props \<longrightarrow>
      fst (sync_pull ''timerecords'' (JObj [(''checkpoint'', JNull)]) (JNum 0) (initDB props))
        = json_error 404 ''Collection not found'') \<and>
   (''name'' \<in> set props \<longrightarrow>
      ''name'' \<notin> set validCollections \<and>
      status (fst (sync_pull ''name'' (JObj [(''checkpoint'', JNull)]) (JNum 0) (initDB props)))
        = 500)"
  by (simp add: validCollections_def sync_pull_def initDB_def lastDoc_def Let_def json_error_def)

theorem sync_pull_serves_time_records_witness:
  "''timerecords'' \<notin> set [''name'', ''collections'', ''storage'', ''token''] \<and>
   ''name'' \<in> set [''name'', ''collections'', ''storage'', ''token''] \<and>
   fst (sync_pull ''time_records'' (JObj [(''checkpoint'', JNull)]) (JNum 0)
          (initDB [''name'', ''collections'', ''storage'', ''token'']))
     = json_ok (JObj [(''documents'', JArr []), (''checkpoint'', JNull)]) \<and>
   fst (sync_pull ''timerecords'' (JObj [(''checkpoint'', JNull)]) (JNum 0)
          (initDB [''name'', ''collections'', ''storage'', ''token'']))
     = json_error 404 ''Collection not found'' \<and>
   status (fst (sync_pull ''name'' (JObj [(''checkpoint'', JNull)]) (JNum 0)
          (initDB [''name'', ''collections'', ''storage'', ''token'']))) = 500"
  using sync_pull_serves_time_records [of "[''name'', ''collections'', ''storage'', ''token'']"]
  by simp

section \<open>Sync pull\<close>

text \<open>
  C6. Sync pull is a full-snapshot pull. For every collection registered with the
  database and every request body, whatever its checkpoint (absent and null included),
  the answer is 200 with all the documents of the collection; the documents do not depend
  on the checkpoint or on the time, and the store is unchanged. The checkpoint in the
  answer is the id of the last document with the current time, or the request's own
  checkpoint when the collection is empty.
\<close>

theorem pull_is_full_snapshot:
  assumes "collections db c = Some docs"
  shows "fst (sync_pull c reqBody now db)
           = json_ok (JObj [(''documents'', JArr docs),
                            (''checkpoint'',
                               if truthy (lastDoc docs)
                               then JObj [(''id'', getProp (lastDoc docs) ''id''), (''updatedAt'', now)]
                               else getProp reqBody ''checkpoint'')]) \<and>
         snd (sync_pull c reqBody now db) = db \<and>
         getProp (body (fst (sync_pull c reqBody now db))) ''documents''
           = getProp (body (fst (sync_pull c reqBody' now' db))) ''documents''"
  using assms by (simp add: sync_pull_def Let_def json_ok_def)

theorem pull_is_full_snapshot_witness:
  "collections \<lparr>collections = [''employees'' \<mapsto>
                   [JObj [(''id'', JStr ''EMP001'')], JObj [(''id'', JStr ''EMP002'')]]],
                otherProps = [''name'']\<rparr> ''employees''
     = Some [JObj [(''id'', JStr ''EMP001'')], JObj [(''id'', JStr ''EMP002'')]] \<and>
   fst (sync_pull ''employees''
          (JObj [(''checkpoint'', JObj [(''id'', JStr ''EMP002''), (''updatedAt'', JNum 9)])]) (JNum 10)
          \<lparr>collections = [''employees'' \<mapsto>
                   [JObj [(''id'', JStr ''EMP001'')], JObj [(''id'', JStr ''EMP002'')]]],
           otherProps = [''name'']\<rparr>)
     = json_ok (JObj [(''documents'', JArr [JObj [(''id'', JStr ''EMP001'')], JObj [(''id'', JStr ''EMP002'')]]),
                      (''checkpoint'', JObj [(''id'', JStr ''EMP002''), (''updatedAt'', JNum 10)])])"
proof -
  have h: "collections \<lparr>collections = [''employees'' \<mapsto>
                   [JObj [(''id'', JStr ''EMP001'')], JObj [(''id'', JStr ''EMP002'')]]],
                otherProps = [''name'']\<rparr> ''employees''
     = Some [JObj [(''id'', JStr ''EMP001'')], JObj [(''id'', JStr ''EMP002'')]]"
    by simp
  from pull_is_full_snapshot
      [of "\<lparr>collections = [''employees'' \<mapsto>
                   [JObj [(''id'', JStr ''EMP001'')], JObj [(''id'', JStr ''EMP002'')]]],
           otherProps = [''name'']\<rparr>"
          "''employees''" "[JObj [(''id'', JStr ''EMP001'')], JObj [(''id'', JStr ''EMP002'')]]"
          "JObj [(''checkpoint'', JObj [(''id'', JStr ''EMP002''), (''updatedAt'', JNum 9)])]" "JNum 10",
       OF h] h
  show ?thesis by (simp add: lastDoc_def)
qed

end
